theory Spec2Isabelle
  imports Complex_Main
begin

section \<open>The street-view service (services/geminiService)\<close>

text \<open>
  JavaScript strings are modelled as \<open>string\<close>. A value of type \<open>string | null\<close>
  is a \<open>string option\<close>; JavaScript treats both \<open>null\<close> and the empty string as
  false in a condition, which \<open>truthy\<close> writes out.
\<close>

definition truthy :: "string option \<Rightarrow> bool" where
  "truthy v = (case v of None \<Rightarrow> False | Some s \<Rightarrow> s \<noteq> [])"

text \<open>
  \<open>base64ToInlineData\<close> matches its argument against
  \<^verbatim>\<open>/^data:(image\/[a-z]+);base64,(.*)$/\<close>. The expression has no flags, so
  \<^verbatim>\<open>^\<close> and \<^verbatim>\<open>$\<close> are the two ends of the input and \<^verbatim>\<open>.\<close> matches any
  character but a line terminator (of the characters of \<open>char\<close>: line feed and
  carriage return). Because \<^verbatim>\<open>;\<close> is not a lower-case letter, the letters matched
  by \<^verbatim>\<open>[a-z]+\<close> are the longest run of lower-case letters after the slash.
  \<open>None\<close> is the thrown \<^verbatim>\<open>Error("Invalid base64 string format")\<close>.
\<close>

fun strip_prefix :: "string \<Rightarrow> string \<Rightarrow> string option" where
  "strip_prefix [] s = Some s"
| "strip_prefix (p # ps) [] = None"
| "strip_prefix (p # ps) (c # cs) = (if p = c then strip_prefix ps cs else None)"

definition is_lower :: "char \<Rightarrow> bool" where
  "is_lower c = ((97::nat) \<le> of_char c \<and> of_char c \<le> (122::nat))"

definition line_terminator :: "char \<Rightarrow> bool" where
  "line_terminator c = (of_char c = (10::nat) \<or> of_char c = (13::nat))"

definition base64ToInlineData :: "string \<Rightarrow> (string \<times> string) option" where
  "base64ToInlineData base64String =
     (case strip_prefix ''data:image/'' base64String of
        None \<Rightarrow> None
      | Some r \<Rightarrow>
          let letters = takeWhile is_lower r; rest = dropWhile is_lower r in
          if letters = [] then None
          else (case strip_prefix '';base64,'' rest of
                  None \<Rightarrow> None
                | Some data \<Rightarrow>
                    if list_ex line_terminator data then None
                    else Some (''image/'' @ letters, data)))"

text \<open>
  The external service. A request is the pair (data, mimeType) of the inline image; the
  prompt is a constant of the source. The answer of \<^verbatim>\<open>ai.models.generateContent\<close>
  is a response, a thrown \<^verbatim>\<open>Error\<close> with its message, or a thrown value that is
  not an \<^verbatim>\<open>Error\<close>. Every optional field the source reads with \<^verbatim>\<open>?.\<close> is an
  option here. The service is a parameter of the model, and the requests it received are
  kept in a log, so that "the service was not contacted" is a statement about the log.
\<close>

type_synonym request = "string \<times> string"

record inline_data =
  data :: string
  mimeType :: string

datatype part = Part (inlineData: "inline_data option")

datatype content = Content (parts: "part list option")

datatype candidate = Candidate (content: "content option")

datatype response = Response (candidates: "candidate list option")

datatype api_outcome = Returns response | ThrowsError string | ThrowsOther

type_synonym service = "request \<Rightarrow> api_outcome"

text \<open>\<^verbatim>\<open>response.candidates?.[0]?.content?.parts ?? []\<close>\<close>

definition response_parts :: "response \<Rightarrow> part list" where
  "response_parts r =
     (case candidates r of
        None \<Rightarrow> []
      | Some [] \<Rightarrow> []
      | Some (c # _) \<Rightarrow>
          (case content c of
             None \<Rightarrow> []
           | Some ct \<Rightarrow> (case parts ct of None \<Rightarrow> [] | Some ps \<Rightarrow> ps)))"

text \<open>The \<^verbatim>\<open>for\<close> loop over the parts: the first part with inline data is returned.\<close>

fun first_image :: "part list \<Rightarrow> string option" where
  "first_image [] = None"
| "first_image (p # ps) =
     (case inlineData p of
        Some d \<Rightarrow> Some (''data:'' @ mimeType d @ '';base64,'' @ data d)
      | None \<Rightarrow> first_image ps)"

text \<open>
  \<open>generateStreetView\<close> returns the data URL of the image, \<open>null\<close> when the response
  has no image part, or throws an \<^verbatim>\<open>Error\<close>: \<open>Inl\<close> carries its message. The second
  component is the log of requests.
\<close>

definition generateStreetView ::
  "service \<Rightarrow> string \<Rightarrow> request list \<Rightarrow> (string + string option) \<times> request list" where
  "generateStreetView ai mergedImageBase64 calls =
     (case base64ToInlineData mergedImageBase64 of
        None \<Rightarrow> (Inl (''Gemini API Error: '' @ ''Invalid base64 string format''), calls)
      | Some (mime, dat) \<Rightarrow>
          (case ai (dat, mime) of
             Returns r \<Rightarrow> (Inr (first_image (response_parts r)), calls @ [(dat, mime)])
           | ThrowsError m \<Rightarrow> (Inl (''Gemini API Error: '' @ m), calls @ [(dat, mime)])
           | ThrowsOther \<Rightarrow>
               (Inl ''An unknown error occurred while contacting the Gemini API.'',
                calls @ [(dat, mime)])))"

section \<open>The marking component (components/MapMarker)\<close>

text \<open>
  A JavaScript number is modelled as a real number: the theory follows the arithmetic
  the source writes, and leaves the rounding, the infinities and the NaN of IEEE-754
  doubles aside. The fields \<^verbatim>\<open>x\<close> and \<^verbatim>\<open>y\<close> of a \<^verbatim>\<open>Point\<close> are \<open>px\<close> and \<open>py\<close>.
\<close>

record Point =
  px :: real
  py :: real

text \<open>
  \<^verbatim>\<open>Math.atan2(y, x)\<close> on real arguments, by the quadrant of \<open>(x, y)\<close>, with the
  value 0 at the origin.
\<close>

definition atan2 :: "real \<Rightarrow> real \<Rightarrow> real" where
  "atan2 y x =
     (if 0 < x then arctan (y / x)
      else if x < 0 then (if 0 \<le> y then arctan (y / x) + pi else arctan (y / x) - pi)
      else if 0 < y then pi / 2
      else if y < 0 then - (pi / 2)
      else 0)"

record image_el =
  src :: string
  naturalWidth :: nat
  naturalHeight :: nat

text \<open>
  The calls made on a \<^verbatim>\<open>CanvasRenderingContext2D\<close>, in the order the code makes
  them. A drawing function of the source is the list of calls it makes.
\<close>

datatype cmd =
    ClearRect real real real real
  | DrawImage image_el real real
  | BeginPath
  | MoveTo real real
  | LineTo real real
  | Stroke
  | Arc real real real real real
  | Fill
  | SetStrokeStyle string
  | SetLineWidth real
  | SetLineCap string
  | SetShadowColor string
  | SetShadowBlur real
  | SetFillStyle string

definition drawArrow :: "Point \<Rightarrow> Point \<Rightarrow> cmd list" where
  "drawArrow from to =
     (let headlen = 25;
          tailExtension = 50;
          dx = px to - px from;
          dy = py to - py from;
          angle = atan2 dy dx;
          length = sqrt (dx * dx + dy * dy)
      in if length = 0 then []
         else
           let ux = dx / length;
               uy = dy / length;
               tailX = px from - ux * tailExtension;
               tailY = py from - uy * tailExtension
           in [SetStrokeStyle ''#FF007A'', SetLineWidth 6, SetLineCap ''round'',
               SetShadowColor ''rgba(0, 0, 0, 0.7)'', SetShadowBlur 10,
               BeginPath, MoveTo tailX tailY, LineTo (px to) (py to), Stroke,
               BeginPath,
               MoveTo (px to) (py to),
               LineTo (px to - headlen * cos (angle - pi / 6))
                      (py to - headlen * sin (angle - pi / 6)),
               MoveTo (px to) (py to),
               LineTo (px to - headlen * cos (angle + pi / 6))
                      (py to - headlen * sin (angle + pi / 6)),
               Stroke,
               SetShadowColor ''transparent'', SetShadowBlur 0])"

text \<open>
  The canvas element: the size of its buffer, and its 2d context as the list of calls
  made on it since the buffer was last reset (\<open>None\<close> when \<^verbatim>\<open>getContext\<close> returns
  \<open>null\<close>). Assigning \<^verbatim>\<open>canvas.width\<close> resets the buffer.
\<close>

record canvas_el =
  canvas_width :: nat
  canvas_height :: nat
  context2d :: "cmd list option"

record MapMarker =
  canvasRef :: "canvas_el option"
  imageRef :: "image_el option"
  points :: "Point list"
  imageSize :: "nat \<times> nat"

text \<open>
  The component as mounted: the initial values of its \<^verbatim>\<open>useState\<close> and
  \<^verbatim>\<open>useRef\<close> calls, with the canvas of the markup attached (an HTML canvas starts
  300 by 150).
\<close>

definition MapMarker_mounted :: MapMarker where
  "MapMarker_mounted =
     \<lparr>canvasRef = Some \<lparr>canvas_width = 300, canvas_height = 150, context2d = Some []\<rparr>,
      imageRef = None, points = [], imageSize = (0, 0)\<rparr>"

definition image_onload :: "image_el \<Rightarrow> MapMarker \<Rightarrow> MapMarker" where
  "image_onload img m =
     m\<lparr>imageRef := Some img, imageSize := (naturalWidth img, naturalHeight img)\<rparr>"

text \<open>The effect that redraws the canvas after \<open>points\<close> or \<open>imageSize\<close> changed.\<close>

definition redraw :: "MapMarker \<Rightarrow> MapMarker" where
  "redraw m =
     (case canvasRef m of
        None \<Rightarrow> m
      | Some canvas \<Rightarrow>
          (case context2d canvas of
             None \<Rightarrow> m
           | Some _ \<Rightarrow>
               (case imageRef m of
                  None \<Rightarrow> m
                | Some img \<Rightarrow>
                    if fst (imageSize m) = 0 then m
                    else
                      let w = naturalWidth img;
                          h = naturalHeight img;
                          base = [ClearRect 0 0 (real w) (real h), DrawImage img 0 0];
                          marks =
                            (if length (points m) = 2
                             then drawArrow (points m ! 0) (points m ! 1)
                             else if length (points m) = 1
                             then [BeginPath,
                                   Arc (px (points m ! 0)) (py (points m ! 0)) 10 0 (2 * pi),
                                   SetFillStyle ''#FF007A'', Fill]
                             else [])
                      in m\<lparr>canvasRef :=
                             Some (canvas\<lparr>canvas_width := w, canvas_height := h,
                                          context2d := Some (base @ marks)\<rparr>)\<rparr>)))"

record MouseEvent =
  clientX :: real
  clientY :: real

text \<open>What \<^verbatim>\<open>canvas.getBoundingClientRect()\<close> returns at the time of a click.\<close>

record DOMRect =
  rect_left :: real
  rect_top :: real
  rect_width :: real
  rect_height :: real

text \<open>
  \<open>handleCanvasClick\<close>. The division is the one the source writes; for a rectangle of
  width or height 0 JavaScript yields an infinity or NaN where HOL yields 0, so what is
  proved about the coordinates of a point is proved for rectangles of non-zero size.
\<close>

definition handleCanvasClick :: "bool \<Rightarrow> DOMRect \<Rightarrow> MouseEvent \<Rightarrow> MapMarker \<Rightarrow> MapMarker" where
  "handleCanvasClick disabled rect event m =
     (if length (points m) \<ge> 2 \<or> disabled then m
      else
        (case canvasRef m of
           None \<Rightarrow> m
         | Some canvas \<Rightarrow>
             let scaleX = real (canvas_width canvas) / rect_width rect;
                 scaleY = real (canvas_height canvas) / rect_height rect;
                 x = (clientX event - rect_left rect) * scaleX;
                 y = (clientY event - rect_top rect) * scaleY
             in m\<lparr>points := points m @ [\<lparr>px = x, py = y\<rparr>]\<rparr>))"

text \<open>\<open>handleUndo\<close>: \<^verbatim>\<open>prevPoints.slice(0, -1)\<close> drops the last point, if any.\<close>

definition handleUndo :: "MapMarker \<Rightarrow> MapMarker" where
  "handleUndo m = m\<lparr>points := butlast (points m)\<rparr>"

text \<open>
  \<open>handleGenerateClick\<close>. The encoder \<^verbatim>\<open>canvas.toDataURL('image/jpeg', 0.9)\<close> is a
  parameter. The second component is the argument of the call of \<open>onGenerate\<close>, or
  \<open>None\<close> when \<open>onGenerate\<close> is not called.
\<close>

definition handleGenerateClick ::
  "(canvas_el \<Rightarrow> string) \<Rightarrow> MapMarker \<Rightarrow> MapMarker \<times> string option" where
  "handleGenerateClick toDataURL m =
     (case canvasRef m of
        None \<Rightarrow> (m, None)
      | Some canvas \<Rightarrow>
          (case context2d canvas of
             None \<Rightarrow> (m, None)
           | Some _ \<Rightarrow>
               (case imageRef m of
                  None \<Rightarrow> (m, None)
                | Some img \<Rightarrow>
                    if length (points m) \<noteq> 2 then (m, None)
                    else
                      let canvas' =
                            canvas\<lparr>canvas_width := naturalWidth img,
                                   canvas_height := naturalHeight img,
                                   context2d := Some ([DrawImage img 0 0] @
                                                    drawArrow (points m ! 0) (points m ! 1))\<rparr>
                      in (m\<lparr>canvasRef := Some canvas'\<rparr>, Some (toDataURL canvas')))))"

text \<open>The \<^verbatim>\<open>disabled\<close> attributes of the Undo and Generate buttons.\<close>

definition undo_button_disabled :: "bool \<Rightarrow> MapMarker \<Rightarrow> bool" where
  "undo_button_disabled disabled m = (length (points m) = 0 \<or> disabled)"

definition generate_button_disabled :: "bool \<Rightarrow> MapMarker \<Rightarrow> bool" where
  "generate_button_disabled disabled m = (length (points m) \<noteq> 2 \<or> disabled)"







section \<open>The generation orchestrator (App)\<close>

datatype AppState = UPLOAD | MARKING | GENERATING | RESULT

record App =
  appState :: AppState
  mapImageUrl :: "string option"
  generatedImageUrl :: "string option"
  lastMergedImage :: "string option"
  error :: "string option"

definition App_initial :: App where
  "App_initial = \<lparr>appState = UPLOAD, mapImageUrl = None, generatedImageUrl = None,
                   lastMergedImage = None, error = None\<rparr>"

text \<open>
  \<open>handleGenerationStart\<close> has two parts, separated by the \<^verbatim>\<open>await\<close>: the state
  updates before the call, and the updates made when the call has settled.
\<close>

definition handleGenerationStart_begin :: "string \<Rightarrow> App \<Rightarrow> App" where
  "handleGenerationStart_begin mergedImageBase64 a =
     a\<lparr>lastMergedImage := Some mergedImageBase64, appState := GENERATING, error := None\<rparr>"

definition handleGenerationStart_settle :: "(string + string option) \<Rightarrow> App \<Rightarrow> App" where
  "handleGenerationStart_settle r a =
     (case r of
        Inr generatedImage \<Rightarrow>
          if truthy generatedImage
          then a\<lparr>generatedImageUrl := generatedImage, appState := RESULT\<rparr>
          else a\<lparr>error := Some (''Failed to generate view: '' @
                      ''The AI model did not return an image. Please try again.''),
                 appState := MARKING\<rparr>
      | Inl errorMessage \<Rightarrow>
          a\<lparr>error := Some (''Failed to generate view: '' @ errorMessage),
            appState := MARKING\<rparr>)"

definition handleGenerationStart ::
  "service \<Rightarrow> string \<Rightarrow> App \<times> request list \<Rightarrow> App \<times> request list" where
  "handleGenerationStart ai mergedImageBase64 st =
     (let a = handleGenerationStart_begin mergedImageBase64 (fst st);
          (r, calls) = generateStreetView ai mergedImageBase64 (snd st)
      in (handleGenerationStart_settle r a, calls))"

definition handleRegenerate_settle :: "(string + string option) \<Rightarrow> App \<Rightarrow> App" where
  "handleRegenerate_settle r a =
     (case r of
        Inr generatedImage \<Rightarrow>
          if truthy generatedImage
          then a\<lparr>generatedImageUrl := generatedImage, appState := RESULT\<rparr>
          else a\<lparr>error := Some (''Failed to regenerate view: '' @
                      ''The AI model did not return an image. Please try again.''),
                 appState := RESULT\<rparr>
      | Inl errorMessage \<Rightarrow>
          a\<lparr>error := Some (''Failed to regenerate view: '' @ errorMessage),
            appState := RESULT\<rparr>)"

definition handleRegenerate :: "service \<Rightarrow> App \<times> request list \<Rightarrow> App \<times> request list" where
  "handleRegenerate ai st =
     (if \<not> truthy (lastMergedImage (fst st))
      then ((fst st)\<lparr>error := Some (''Cannot regenerate, previous image data is missing. '' @
                                     ''Please try marking a spot again.''),
                     appState := MARKING\<rparr>, snd st)
      else
        let a = (fst st)\<lparr>appState := GENERATING, error := None\<rparr>;
            (r, calls) = generateStreetView ai (the (lastMergedImage (fst st))) (snd st)
        in (handleRegenerate_settle r a, calls))"

definition handleRestart :: "App \<Rightarrow> App" where
  "handleRestart a = a\<lparr>generatedImageUrl := None, error := None, appState := MARKING\<rparr>"

definition handleUploadNew :: "App \<Rightarrow> App" where
  "handleUploadNew a =
     a\<lparr>mapImageUrl := None, generatedImageUrl := None, lastMergedImage := None,
       error := None, appState := UPLOAD\<rparr>"

text \<open>
  \<open>handleFileUpload\<close>: the reader's result is the data URL of the file, a value that is
  not a string, or a read error.
\<close>

datatype read_outcome = ReadString string | ReadOther | ReadError

definition handleFileUpload :: "read_outcome \<Rightarrow> App \<Rightarrow> App" where
  "handleFileUpload r a =
     (case r of
        ReadString result \<Rightarrow>
          a\<lparr>mapImageUrl := Some result, appState := MARKING, error := None,
            generatedImageUrl := None\<rparr>
      | ReadOther \<Rightarrow> a\<lparr>error := Some ''Failed to read the image file.''\<rparr>
      | ReadError \<Rightarrow> a\<lparr>error := Some ''Error reading file.''\<rparr>)"

section \<open>The rendered tree and the state of mounted components\<close>

text \<open>
  \<open>renderContent\<close> returns a tree of elements that depends on \<open>appState\<close>: in
  \<open>MARKING\<close> the root is the MapMarker itself, in \<open>GENERATING\<close> it is a
  \<^verbatim>\<open>div\<close> that holds a disabled MapMarker (or a disabled ResultDisplay) under the
  spinner overlay. Only the props that the components read are kept; a callback prop is
  the name of the handler passed, or \<open>cb_noop\<close> for \<^verbatim>\<open>() => {}\<close>.
\<close>

datatype callback =
    cb_handleFileUpload
  | cb_handleGenerationStart
  | cb_handleUploadNew
  | cb_handleRestart
  | cb_handleRegenerate
  | cb_noop

record MapMarkerProps =
  prop_mapImageUrl :: string
  prop_onGenerate :: callback
  prop_disabled :: bool
  prop_error :: "string option"
  prop_onUploadNew :: callback

record ResultDisplayProps =
  rd_generatedImageUrl :: string
  rd_onRestart :: callback
  rd_onUploadNew :: callback
  rd_onRegenerate :: callback
  rd_disabled :: bool
  rd_error :: "string option"

datatype element =
    FileUpload_el callback
  | MapMarker_el MapMarkerProps
  | ResultDisplay_el ResultDisplayProps
  | LoadingSpinner_el
  | Host string "element list"
  | Text string
  | Nothing

definition overlay :: "string \<Rightarrow> element" where
  "overlay message = Host ''div'' [LoadingSpinner_el, Host ''p'' [Text message]]"

definition renderContent :: "App \<Rightarrow> element" where
  "renderContent a =
     (case appState a of
        UPLOAD \<Rightarrow> FileUpload_el cb_handleFileUpload
      | MARKING \<Rightarrow>
          if truthy (mapImageUrl a)
          then MapMarker_el
                 \<lparr>prop_mapImageUrl = the (mapImageUrl a),
                  prop_onGenerate = cb_handleGenerationStart,
                  prop_disabled = False,
                  prop_error = error a,
                  prop_onUploadNew = cb_handleUploadNew\<rparr>
          else FileUpload_el cb_handleFileUpload
      | GENERATING \<Rightarrow>
          if truthy (generatedImageUrl a)
          then Host ''div''
                 [ResultDisplay_el
                    \<lparr>rd_generatedImageUrl = the (generatedImageUrl a),
                     rd_onRestart = cb_noop, rd_onUploadNew = cb_noop,
                     rd_onRegenerate = cb_noop, rd_disabled = True, rd_error = None\<rparr>,
                  overlay ''Regenerating your view...'']
          else Host ''div''
                 [if truthy (mapImageUrl a)
                  then MapMarker_el
                         \<lparr>prop_mapImageUrl = the (mapImageUrl a),
                          prop_onGenerate = cb_noop,
                          prop_disabled = True,
                          prop_error = None,
                          prop_onUploadNew = cb_noop\<rparr>
                  else Nothing,
                  overlay ''Generating your street view...'']
      | RESULT \<Rightarrow>
          if truthy (generatedImageUrl a)
          then ResultDisplay_el
                 \<lparr>rd_generatedImageUrl = the (generatedImageUrl a),
                  rd_onRestart = cb_handleRestart, rd_onUploadNew = cb_handleUploadNew,
                  rd_onRegenerate = cb_handleRegenerate, rd_disabled = False,
                  rd_error = error a\<rparr>
          else Host ''p'' [Text ''Something went wrong.''])"

text \<open>
  The state that \<^verbatim>\<open>useState\<close> and \<^verbatim>\<open>useRef\<close> hold belongs to a mounted
  component: \<open>points\<close> lives in the MapMarker that is on the screen, not in \<open>App\<close>.
  React keeps a mounted component, and its state, across a render as long as the new tree
  has an element of the same type at the same position; where the type at a position
  differs, the old subtree is unmounted, its state is dropped, and the new subtree is
  mounted with the initial state. The source gives no keys, so position is the index
  among the children. \<open>FileUpload_f\<close> carries \<open>dragActive\<close>, \<open>MapMarker_f\<close> the
  state of a MapMarker; the other components have no state.
\<close>

datatype fiber =
    FileUpload_f bool
  | MapMarker_f MapMarker
  | ResultDisplay_f
  | LoadingSpinner_f
  | Host_f string "fiber list"
  | Text_f
  | Nothing_f

fun mount :: "element \<Rightarrow> fiber" where
  "mount (FileUpload_el _) = FileUpload_f False"
| "mount (MapMarker_el _) = MapMarker_f MapMarker_mounted"
| "mount (ResultDisplay_el _) = ResultDisplay_f"
| "mount LoadingSpinner_el = LoadingSpinner_f"
| "mount (Host tag children) = Host_f tag (map mount children)"
| "mount (Text _) = Text_f"
| "mount Nothing = Nothing_f"

fun reconcile :: "fiber \<Rightarrow> element \<Rightarrow> fiber"
  and reconcile_children :: "fiber list \<Rightarrow> element list \<Rightarrow> fiber list" where
  "reconcile f (FileUpload_el c) =
     (case f of FileUpload_f d \<Rightarrow> FileUpload_f d | _ \<Rightarrow> mount (FileUpload_el c))"
| "reconcile f (MapMarker_el p) =
     (case f of MapMarker_f m \<Rightarrow> MapMarker_f m | _ \<Rightarrow> mount (MapMarker_el p))"
| "reconcile f (ResultDisplay_el p) = ResultDisplay_f"
| "reconcile f LoadingSpinner_el = LoadingSpinner_f"
| "reconcile f (Host tag' children) =
     (case f of
        Host_f tag fs \<Rightarrow>
          if tag = tag' then Host_f tag (reconcile_children fs children)
          else mount (Host tag' children)
      | _ \<Rightarrow> mount (Host tag' children))"
| "reconcile f (Text t) = Text_f"
| "reconcile f Nothing = Nothing_f"
| "reconcile_children fs [] = []"
| "reconcile_children fs (e # es) =
     (case fs of
        [] \<Rightarrow> mount e # reconcile_children [] es
      | f # fs' \<Rightarrow> reconcile f e # reconcile_children fs' es)"

text \<open>
  The application as it runs: the state of \<open>App\<close>, the mounted tree under it, and the
  requests sent to the service so far. \<open>commit\<close> renders \<open>App\<close> and reconciles the
  mounted tree with the result, as happens after the state of \<open>App\<close> has changed.
\<close>

record System =
  app :: App
  ui :: fiber
  sent :: "request list"

definition commit :: "App \<Rightarrow> fiber \<Rightarrow> fiber" where
  "commit a f = reconcile f (renderContent a)"


text \<open>
  A run of \<open>handleGenerateClick\<close> of the MapMarker at the root, with the call of
  \<open>onGenerate\<close> it may make. In \<open>MARKING\<close> the prop \<open>onGenerate\<close> is
  \<open>handleGenerationStart\<close>: its updates before the \<^verbatim>\<open>await\<close> are committed, the
  service call settles, and the updates after it are committed.
\<close>

definition run_handleGenerateClick ::
  "service \<Rightarrow> (canvas_el \<Rightarrow> string) \<Rightarrow> System \<Rightarrow> System" where
  "run_handleGenerateClick ai toDataURL s =
     (case (ui s, renderContent (app s)) of
        (MapMarker_f m, MapMarker_el props) \<Rightarrow>
          (case handleGenerateClick toDataURL m of
             (m', None) \<Rightarrow> s\<lparr>ui := MapMarker_f m'\<rparr>
           | (m', Some mergedImage) \<Rightarrow>
               if prop_onGenerate props = cb_handleGenerationStart
               then
                 let a1 = handleGenerationStart_begin mergedImage (app s);
                     ui1 = commit a1 (MapMarker_f m');
                     (r, calls) = generateStreetView ai mergedImage (sent s);
                     a2 = handleGenerationStart_settle r a1
                 in \<lparr>app = a2, ui = commit a2 ui1, sent = calls\<rparr>
               else s\<lparr>ui := MapMarker_f m'\<rparr>)
      | _ \<Rightarrow> s)"

text \<open>A click on the Generate button: nothing happens while the button is disabled.\<close>

definition click_Generate ::
  "service \<Rightarrow> (canvas_el \<Rightarrow> string) \<Rightarrow> System \<Rightarrow> System" where
  "click_Generate ai toDataURL s =
     (case (ui s, renderContent (app s)) of
        (MapMarker_f m, MapMarker_el props) \<Rightarrow>
          if generate_button_disabled (prop_disabled props) m then s
          else run_handleGenerateClick ai toDataURL s
      | _ \<Rightarrow> s)"

section \<open>What a list of canvas calls draws\<close>

text \<open>
  The line segments that a list of calls strokes, by the rules of the canvas path:
  \<^verbatim>\<open>beginPath\<close> empties the path, \<^verbatim>\<open>moveTo\<close> starts a subpath at a point,
  \<^verbatim>\<open>lineTo\<close> adds the segment from the current point (or starts a subpath when there
  is none), and \<^verbatim>\<open>stroke\<close> draws every segment of the path. The arguments are the
  remaining calls, the current point and the segments of the path so far.
\<close>

fun strokes :: "cmd list \<Rightarrow> Point option \<Rightarrow> (Point \<times> Point) list \<Rightarrow> (Point \<times> Point) list" where
  "strokes [] cur path = []"
| "strokes (BeginPath # cs) cur path = strokes cs None []"
| "strokes (MoveTo x y # cs) cur path = strokes cs (Some \<lparr>px = x, py = y\<rparr>) path"
| "strokes (LineTo x y # cs) cur path =
     (case cur of
        None \<Rightarrow> strokes cs (Some \<lparr>px = x, py = y\<rparr>) path
      | Some p \<Rightarrow> strokes cs (Some \<lparr>px = x, py = y\<rparr>) (path @ [(p, \<lparr>px = x, py = y\<rparr>)]))"
| "strokes (Stroke # cs) cur path = path @ strokes cs cur path"
| "strokes (_ # cs) cur path = strokes cs cur path"

definition stroked_segments :: "cmd list \<Rightarrow> (Point \<times> Point) list" where
  "stroked_segments cs = strokes cs None []"

section \<open>Notions of the specification\<close>

text \<open>
  The pattern of an accepted payload as the specification words it:
  \<^verbatim>\<open>data:image/\<close>, lower-case ASCII letters (at least one), \<^verbatim>\<open>;base64,\<close>, and a
  payload.
\<close>

definition data_image_uri :: "string \<Rightarrow> bool" where
  "data_image_uri s =
     (\<exists>letters payload. letters \<noteq> [] \<and> list_all is_lower letters \<and>
        s = ''data:image/'' @ letters @ '';base64,'' @ payload)"



text \<open>
  Plane geometry for the arrowhead: the vector from one point to another, its length,
  the scalar and the cross product, and the angle between two vectors.
\<close>

definition vec :: "Point \<Rightarrow> Point \<Rightarrow> real \<times> real" where
  "vec a b = (px b - px a, py b - py a)"

definition vlen :: "real \<times> real \<Rightarrow> real" where
  "vlen v = sqrt (fst v * fst v + snd v * snd v)"

definition dot :: "real \<times> real \<Rightarrow> real \<times> real \<Rightarrow> real" where
  "dot u v = fst u * fst v + snd u * snd v"

definition cross :: "real \<times> real \<Rightarrow> real \<times> real \<Rightarrow> real" where
  "cross u v = fst u * snd v - snd u * fst v"

definition angle_between :: "real \<times> real \<Rightarrow> real \<times> real \<Rightarrow> real" where
  "angle_between u v = arccos (dot u v / (vlen u * vlen v))"

section \<open>A sample session\<close>

text \<open>
  A map of 800 by 600 pixels is loaded and two points are marked; no view has been
  generated yet. The encoder returns a fixed JPEG data URL, and the service answers with
  a response that has no candidates.
\<close>

definition sample_image :: image_el where
  "sample_image = \<lparr>src = ''data:image/png;base64,AAAA'', naturalWidth = 800, naturalHeight = 600\<rparr>"

definition sample_marker :: MapMarker where
  "sample_marker =
     \<lparr>canvasRef = Some \<lparr>canvas_width = 800, canvas_height = 600, context2d = Some []\<rparr>,
      imageRef = Some sample_image,
      points = [\<lparr>px = 10, py = 20\<rparr>, \<lparr>px = 30, py = 40\<rparr>],
      imageSize = (800, 600)\<rparr>"

definition sample_system :: System where
  "sample_system =
     \<lparr>app = \<lparr>appState = MARKING, mapImageUrl = Some ''data:image/png;base64,AAAA'',
             generatedImageUrl = None, lastMergedImage = None, error = None\<rparr>,
      ui = MapMarker_f sample_marker,
      sent = []\<rparr>"

definition sample_encoder :: "canvas_el \<Rightarrow> string" where
  "sample_encoder canvas = ''data:image/jpeg;base64,CCCC''"

definition empty_service :: service where
  "empty_service req = Returns (Response None)"



section \<open>Properties\<close>

lemma truthy_Some [simp]: "truthy (Some s) = (s \<noteq> [])"
  by (simp add: truthy_def)

lemma truthy_None [simp]: "truthy None = False"
  by (simp add: truthy_def)

subsection \<open>Requests sent per trigger\<close>

lemma generateStreetView_sent:
  "snd (generateStreetView ai s calls) = calls \<or>
   (\<exists>req. snd (generateStreetView ai s calls) = calls @ [req])"
  by (auto simp: generateStreetView_def split: option.splits api_outcome.splits)

lemma handleRegenerate_sent:
  "snd (handleRegenerate ai (a, calls)) = calls \<or>
   (\<exists>req. snd (handleRegenerate ai (a, calls)) = calls @ [req])"
  using generateStreetView_sent[of ai "the (lastMergedImage a)" calls]
  by (auto simp: handleRegenerate_def Let_def split: prod.splits)

subsection \<open>Regenerate\<close>

text \<open>
  C3. Regenerate with no cached composited artifact (\<open>lastMergedImage\<close> is \<open>null\<close> or
  empty): the handler returns, with the message that asks the user to mark a spot again
  in \<open>error\<close>, \<open>appState\<close> set to \<open>MARKING\<close>, every other field of \<open>App\<close> as it was,
  and the log of requests as it was: the service is not called, and nothing is tried a
  second time. (By \<open>handleRegenerate_sent\<close> a trigger sends at most one request in any
  case.)
\<close>

theorem regenerate_without_cache:
  assumes "\<not> truthy (lastMergedImage a)"
  shows "handleRegenerate ai (a, calls) =
           (a\<lparr>error := Some ''Cannot regenerate, previous image data is missing. Please try marking a spot again.'',
              appState := MARKING\<rparr>, calls)"
  using assms by (simp add: handleRegenerate_def)

theorem regenerate_without_cache_witness:
  "handleRegenerate (\<lambda>_. ThrowsOther)
     (\<lparr>appState = RESULT, mapImageUrl = Some ''data:image/png;base64,AAAA'',
       generatedImageUrl = Some ''data:image/png;base64,BBBB'',
       lastMergedImage = None, error = None\<rparr>, []) =
   (\<lparr>appState = MARKING, mapImageUrl = Some ''data:image/png;base64,AAAA'',
      generatedImageUrl = Some ''data:image/png;base64,BBBB'',
      lastMergedImage = None,
      error = Some ''Cannot regenerate, previous image data is missing. Please try marking a spot again.''\<rparr>, [])"
  using regenerate_without_cache
          [of "\<lparr>appState = RESULT, mapImageUrl = Some ''data:image/png;base64,AAAA'',
                generatedImageUrl = Some ''data:image/png;base64,BBBB'',
                lastMergedImage = None, error = None\<rparr>" "\<lambda>_. ThrowsOther" "[]"]
  by simp

text \<open>
  C4. Regenerate with a cached artifact and a generated image on display, when the call
  does not yield an image (it throws, or the response has no image part): the state ends
  in \<open>RESULT\<close>, \<open>generatedImageUrl\<close> is the image that was there, \<open>error\<close> holds a
  message that starts with "Failed to regenerate view: ", and what is rendered is the
  ResultDisplay of that image with that error.
\<close>

theorem regenerate_failure_keeps_result:
  assumes "truthy (lastMergedImage a)"
    and "truthy (generatedImageUrl a)"
    and "\<not> (\<exists>img. img \<noteq> [] \<and>
              fst (generateStreetView ai (the (lastMergedImage a)) calls) = Inr (Some img))"
  shows "appState (fst (handleRegenerate ai (a, calls))) = RESULT \<and>
         generatedImageUrl (fst (handleRegenerate ai (a, calls))) = generatedImageUrl a \<and>
         (\<exists>msg. error (fst (handleRegenerate ai (a, calls))) =
                  Some (''Failed to regenerate view: '' @ msg)) \<and>
         renderContent (fst (handleRegenerate ai (a, calls))) =
           ResultDisplay_el
             \<lparr>rd_generatedImageUrl = the (generatedImageUrl a),
              rd_onRestart = cb_handleRestart, rd_onUploadNew = cb_handleUploadNew,
              rd_onRegenerate = cb_handleRegenerate, rd_disabled = False,
              rd_error = error (fst (handleRegenerate ai (a, calls)))\<rparr>"
  using assms
  by (auto simp: handleRegenerate_def handleRegenerate_settle_def renderContent_def Let_def
                 truthy_def
           split: prod.splits sum.splits option.splits)

lemma base64ToInlineData_jpeg:
  "base64ToInlineData ''data:image/jpeg;base64,CCCC'' = Some (''image/jpeg'', ''CCCC'')"
  by (simp add: base64ToInlineData_def is_lower_def line_terminator_def)

theorem regenerate_failure_keeps_result_witness:
  "appState (fst (handleRegenerate (\<lambda>_. ThrowsError ''quota'')
     (\<lparr>appState = RESULT, mapImageUrl = Some ''data:image/png;base64,AAAA'',
       generatedImageUrl = Some ''data:image/png;base64,BBBB'',
       lastMergedImage = Some ''data:image/jpeg;base64,CCCC'', error = None\<rparr>, []))) = RESULT \<and>
   generatedImageUrl (fst (handleRegenerate (\<lambda>_. ThrowsError ''quota'')
     (\<lparr>appState = RESULT, mapImageUrl = Some ''data:image/png;base64,AAAA'',
       generatedImageUrl = Some ''data:image/png;base64,BBBB'',
       lastMergedImage = Some ''data:image/jpeg;base64,CCCC'', error = None\<rparr>, []))) =
     Some ''data:image/png;base64,BBBB'' \<and>
   error (fst (handleRegenerate (\<lambda>_. ThrowsError ''quota'')
     (\<lparr>appState = RESULT, mapImageUrl = Some ''data:image/png;base64,AAAA'',
       generatedImageUrl = Some ''data:image/png;base64,BBBB'',
       lastMergedImage = Some ''data:image/jpeg;base64,CCCC'', error = None\<rparr>, []))) =
     Some ''Failed to regenerate view: Gemini API Error: quota''"
  using regenerate_failure_keeps_result
          [of "\<lparr>appState = RESULT, mapImageUrl = Some ''data:image/png;base64,AAAA'',
                generatedImageUrl = Some ''data:image/png;base64,BBBB'',
                lastMergedImage = Some ''data:image/jpeg;base64,CCCC'', error = None\<rparr>"
              "\<lambda>_. ThrowsError ''quota''" "[]"]
  by (simp add: generateStreetView_def base64ToInlineData_jpeg handleRegenerate_def
                handleRegenerate_settle_def)

subsection \<open>The lifetime of the cached artifact\<close>

text \<open>
  The restart: \<open>handleRestart\<close> clears the generated image and the error and sets
  \<open>MARKING\<close>, and leaves \<open>lastMergedImage\<close> as it is.
\<close>

theorem restart_keeps_cache_counterexample:
  "lastMergedImage
     (handleRestart
        \<lparr>appState = RESULT, mapImageUrl = Some ''data:image/png;base64,AAAA'',
         generatedImageUrl = Some ''data:image/png;base64,BBBB'',
         lastMergedImage = Some ''data:image/jpeg;base64,CCCC'', error = None\<rparr>) \<noteq> None"
  by (simp add: handleRestart_def)

text \<open>
  C5 (amended). The cached artifact is set to absent by upload-new; it is the same after a
  restart and after a regenerate cycle, however the service call ends.
\<close>

theorem cache_lifetime:
  "lastMergedImage (handleUploadNew a) = None \<and>
   lastMergedImage (handleRestart a) = lastMergedImage a \<and>
   lastMergedImage (fst (handleRegenerate ai (a, calls))) = lastMergedImage a"
  by (auto simp: handleUploadNew_def handleRestart_def handleRegenerate_def
                 handleRegenerate_settle_def Let_def
           split: prod.splits sum.splits option.splits)

subsection \<open>Payloads that are not image data URIs\<close>

lemma strip_prefix_Some: "strip_prefix p s = Some r \<longleftrightarrow> s = p @ r"
  by (induction p s rule: strip_prefix.induct) auto

lemma strip_prefix_None: "strip_prefix p s = None \<longleftrightarrow> (\<forall>r. s \<noteq> p @ r)"
  by (induction p s rule: strip_prefix.induct) auto

lemma not_lower_semicolon: "\<not> is_lower CHR '';''"
  by (simp add: is_lower_def)

lemma takeWhile_letters:
  assumes "list_all is_lower letters"
  shows "takeWhile is_lower (letters @ '';base64,'' @ payload) = letters"
    and "dropWhile is_lower (letters @ '';base64,'' @ payload) = '';base64,'' @ payload"
  using assms not_lower_semicolon by (induction letters) auto

text \<open>The pattern of the specification, as a computation on the string.\<close>

lemma data_image_uri_iff:
  "data_image_uri s \<longleftrightarrow>
     (case strip_prefix ''data:image/'' s of
        None \<Rightarrow> False
      | Some r \<Rightarrow> takeWhile is_lower r \<noteq> [] \<and>
                  strip_prefix '';base64,'' (dropWhile is_lower r) \<noteq> None)"
proof
  assume "data_image_uri s"
  then obtain letters payload where l: "letters \<noteq> []" "list_all is_lower letters"
    and s: "s = ''data:image/'' @ letters @ '';base64,'' @ payload"
    unfolding data_image_uri_def by blast
  have "strip_prefix ''data:image/'' s = Some (letters @ '';base64,'' @ payload)"
    unfolding strip_prefix_Some using s by simp
  moreover have "strip_prefix '';base64,'' ('';base64,'' @ payload) = Some payload"
    unfolding strip_prefix_Some by simp
  ultimately show "case strip_prefix ''data:image/'' s of
        None \<Rightarrow> False
      | Some r \<Rightarrow> takeWhile is_lower r \<noteq> [] \<and>
                  strip_prefix '';base64,'' (dropWhile is_lower r) \<noteq> None"
    using l takeWhile_letters[OF l(2), of payload] by simp
next
  assume a: "case strip_prefix ''data:image/'' s of
        None \<Rightarrow> False
      | Some r \<Rightarrow> takeWhile is_lower r \<noteq> [] \<and>
                  strip_prefix '';base64,'' (dropWhile is_lower r) \<noteq> None"
  then obtain r d where r: "strip_prefix ''data:image/'' s = Some r"
    and l: "takeWhile is_lower r \<noteq> []"
    and d: "strip_prefix '';base64,'' (dropWhile is_lower r) = Some d"
    by (auto split: option.splits)
  have "s = ''data:image/'' @ r"
    using r by (simp only: strip_prefix_Some)
  moreover have "dropWhile is_lower r = '';base64,'' @ d"
    using d by (simp only: strip_prefix_Some)
  moreover have "r = takeWhile is_lower r @ dropWhile is_lower r"
    by simp
  moreover have "list_all is_lower (takeWhile is_lower r)"
    by (simp add: list_all_iff) (meson set_takeWhileD)
  ultimately show "data_image_uri s"
    unfolding data_image_uri_def using l by metis
qed

lemma base64ToInlineData_None:
  assumes "\<not> data_image_uri s"
  shows "base64ToInlineData s = None"
  using assms unfolding data_image_uri_iff
  by (auto simp: base64ToInlineData_def Let_def split: option.splits)

text \<open>
  C10. For a string that is not of the form \<^verbatim>\<open>data:image/<lower-case letters>;base64,<payload>\<close>,
  \<open>generateStreetView\<close> throws "Gemini API Error: Invalid base64 string format" and the
  log of requests is as it was. \<open>handleGenerationStart\<close> with such a string ends in
  \<open>MARKING\<close> with "Failed to generate view: ..." in \<open>error\<close>, and \<open>handleRegenerate\<close>
  with such a string in the cache ends in \<open>RESULT\<close> with "Failed to regenerate view: ..."
  in \<open>error\<close>.
\<close>

theorem rejected_payload_is_generation_failure:
  assumes "\<not> data_image_uri s"
  shows "generateStreetView ai s calls =
           (Inl ''Gemini API Error: Invalid base64 string format'', calls) \<and>
         handleGenerationStart ai s (a, calls) =
           (a\<lparr>lastMergedImage := Some s, appState := MARKING,
              error := Some ''Failed to generate view: Gemini API Error: Invalid base64 string format''\<rparr>,
            calls) \<and>
         (lastMergedImage a = Some s \<and> s \<noteq> [] \<longrightarrow>
            handleRegenerate ai (a, calls) =
              (a\<lparr>appState := RESULT,
                 error := Some ''Failed to regenerate view: Gemini API Error: Invalid base64 string format''\<rparr>,
               calls))"
  using base64ToInlineData_None[OF assms]
  by (simp add: generateStreetView_def handleGenerationStart_def handleGenerationStart_begin_def
                handleGenerationStart_settle_def handleRegenerate_def handleRegenerate_settle_def)

theorem rejected_payload_is_generation_failure_witness:
  "\<not> data_image_uri ''data:image/svg+xml;base64,AAAA'' \<and>
   generateStreetView (\<lambda>_. Returns (Response None)) ''data:image/svg+xml;base64,AAAA'' [] =
     (Inl ''Gemini API Error: Invalid base64 string format'', []) \<and>
   handleGenerationStart (\<lambda>_. Returns (Response None)) ''data:image/svg+xml;base64,AAAA''
       (\<lparr>appState = RESULT, mapImageUrl = Some ''data:image/png;base64,AAAA'',
         generatedImageUrl = Some ''data:image/png;base64,BBBB'',
         lastMergedImage = Some ''data:image/svg+xml;base64,AAAA'', error = None\<rparr>, []) =
     (\<lparr>appState = MARKING, mapImageUrl = Some ''data:image/png;base64,AAAA'',
        generatedImageUrl = Some ''data:image/png;base64,BBBB'',
        lastMergedImage = Some ''data:image/svg+xml;base64,AAAA'',
        error = Some ''Failed to generate view: Gemini API Error: Invalid base64 string format''\<rparr>,
      []) \<and>
   handleRegenerate (\<lambda>_. Returns (Response None))
       (\<lparr>appState = RESULT, mapImageUrl = Some ''data:image/png;base64,AAAA'',
         generatedImageUrl = Some ''data:image/png;base64,BBBB'',
         lastMergedImage = Some ''data:image/svg+xml;base64,AAAA'', error = None\<rparr>, []) =
     (\<lparr>appState = RESULT, mapImageUrl = Some ''data:image/png;base64,AAAA'',
        generatedImageUrl = Some ''data:image/png;base64,BBBB'',
        lastMergedImage = Some ''data:image/svg+xml;base64,AAAA'',
        error = Some ''Failed to regenerate view: Gemini API Error: Invalid base64 string format''\<rparr>,
      [])"
proof -
  have h: "\<not> data_image_uri ''data:image/svg+xml;base64,AAAA''"
    by (simp add: data_image_uri_iff is_lower_def)
  show ?thesis
    using h rejected_payload_is_generation_failure
              [OF h, of "\<lambda>_. Returns (Response None)" "[]"
                 "\<lparr>appState = RESULT, mapImageUrl = Some ''data:image/png;base64,AAAA'',
                   generatedImageUrl = Some ''data:image/png;base64,BBBB'',
                   lastMergedImage = Some ''data:image/svg+xml;base64,AAAA'', error = None\<rparr>"]
    by simp
qed

subsection \<open>The arrow\<close>

text \<open>The cosine and the sine of \<open>atan2 dy dx\<close> are those of the direction \<open>(dx, dy)\<close>.\<close>

lemma sqrt_one_plus_ratio:
  fixes dx dy :: real
  assumes "dx \<noteq> 0"
  shows "sqrt (1 + (dy / dx)\<^sup>2) = sqrt (dx * dx + dy * dy) / \<bar>dx\<bar>"
proof -
  have "1 + (dy / dx)\<^sup>2 = (dx * dx + dy * dy) / (dx * dx)"
    using assms by (simp add: power2_eq_square field_simps)
  then have "sqrt (1 + (dy / dx)\<^sup>2) = sqrt (dx * dx + dy * dy) / sqrt (dx * dx)"
    by (simp add: real_sqrt_divide)
  then show ?thesis by simp
qed

lemma cos_atan2:
  fixes dx dy :: real
  assumes "dx \<noteq> 0 \<or> dy \<noteq> 0"
  shows "cos (atan2 dy dx) = dx / sqrt (dx * dx + dy * dy)"
proof -
  consider "0 < dx" | "dx < 0" | "dx = 0" "0 < dy" | "dx = 0" "dy < 0"
    using assms by linarith
  then show ?thesis
  proof cases
    case 1
    then show ?thesis
      by (simp add: atan2_def cos_arctan sqrt_one_plus_ratio)
  next
    case 2
    then show ?thesis
      by (simp add: atan2_def cos_arctan sqrt_one_plus_ratio)
  next
    case 3
    then show ?thesis by (simp add: atan2_def)
  next
    case 4
    then show ?thesis by (simp add: atan2_def)
  qed
qed

lemma sin_atan2:
  fixes dx dy :: real
  assumes "dx \<noteq> 0 \<or> dy \<noteq> 0"
  shows "sin (atan2 dy dx) = dy / sqrt (dx * dx + dy * dy)"
proof -
  consider "0 < dx" | "dx < 0" | "dx = 0" "0 < dy" | "dx = 0" "dy < 0"
    using assms by linarith
  then show ?thesis
  proof cases
    case 1
    then show ?thesis
      by (simp add: atan2_def sin_arctan sqrt_one_plus_ratio)
  next
    case 2
    then show ?thesis
      by (simp add: atan2_def sin_arctan sqrt_one_plus_ratio)
  next
    case 3
    then show ?thesis by (simp add: atan2_def)
  next
    case 4
    then show ?thesis by (simp add: atan2_def)
  qed
qed

lemma Point_neq: "(a::Point) \<noteq> b \<longleftrightarrow> px a \<noteq> px b \<or> py a \<noteq> py b"
  by (cases a, cases b) auto

lemma length_pos:
  fixes dx dy :: real
  assumes "dx \<noteq> 0 \<or> dy \<noteq> 0"
  shows "0 < sqrt (dx * dx + dy * dy)"
proof -
  have "0 < dx * dx + dy * dy"
    using assms by (metis add_pos_nonneg add_nonneg_pos zero_le_square not_real_square_gt_zero)
  then show ?thesis by simp
qed

lemma drawArrow_distinct:
  assumes "from \<noteq> to"
  shows "stroked_segments (drawArrow from to) =
    [(\<lparr>px = px from - (px to - px from) / sqrt ((px to - px from) * (px to - px from) + (py to - py from) * (py to - py from)) * 50,
       py = py from - (py to - py from) / sqrt ((px to - px from) * (px to - px from) + (py to - py from) * (py to - py from)) * 50\<rparr>,
      \<lparr>px = px to, py = py to\<rparr>),
     (\<lparr>px = px to, py = py to\<rparr>,
      \<lparr>px = px to - 25 * cos (atan2 (py to - py from) (px to - px from) - pi / 6),
       py = py to - 25 * sin (atan2 (py to - py from) (px to - px from) - pi / 6)\<rparr>),
     (\<lparr>px = px to, py = py to\<rparr>,
      \<lparr>px = px to - 25 * cos (atan2 (py to - py from) (px to - px from) + pi / 6),
       py = py to - 25 * sin (atan2 (py to - py from) (px to - px from) + pi / 6)\<rparr>)]"
proof -
  have "px to - px from \<noteq> 0 \<or> py to - py from \<noteq> 0"
    using assms by (auto simp: Point_neq)
  then have "sqrt ((px to - px from) * (px to - px from) + (py to - py from) * (py to - py from)) \<noteq> 0"
    using length_pos by fastforce
  then show ?thesis
    by (simp add: drawArrow_def stroked_segments_def Let_def)
qed

lemma vlen_polar: "vlen (- (r * cos t), - (r * sin t)) = \<bar>r\<bar>"
proof -
  have "r * cos t * (r * cos t) + r * sin t * (r * sin t) = (r * r) * ((cos t)\<^sup>2 + (sin t)\<^sup>2)"
    unfolding power2_eq_square by (simp only: algebra_simps)
  also have "\<dots> = r * r" by simp
  finally show ?thesis by (simp add: vlen_def)
qed

lemma vec_reverse:
  fixes dx dy :: real
  assumes "dx \<noteq> 0 \<or> dy \<noteq> 0"
  defines "L \<equiv> sqrt (dx * dx + dy * dy)"
  shows "dx = L * cos (atan2 dy dx)" and "dy = L * sin (atan2 dy dx)"
  using length_pos[OF assms(1)] by (simp_all add: cos_atan2[OF assms(1)] sin_atan2[OF assms(1)] L_def)

lemma head_segment:
  fixes dx dy a :: real
  assumes nz: "dx \<noteq> 0 \<or> dy \<noteq> 0"
  defines "t \<equiv> atan2 dy dx"
  defines "L \<equiv> sqrt (dx * dx + dy * dy)"
  shows "dot (- (25 * cos (t + a)), - (25 * sin (t + a))) (- dx, - dy) = 25 * L * cos a"
    and "cross (- dx, - dy) (- (25 * cos (t + a)), - (25 * sin (t + a))) = 25 * L * sin a"
    and "vlen (- dx, - dy) = L"
proof -
  have dx: "dx = L * cos t" and dy: "dy = L * sin t"
    using vec_reverse[OF nz] by (simp_all add: t_def L_def)
  have "dot (- (25 * cos (t + a)), - (25 * sin (t + a))) (- dx, - dy)
        = 25 * (cos (t + a) * dx + sin (t + a) * dy)"
    by (simp add: dot_def algebra_simps)
  also have "\<dots> = 25 * L * (cos (t + a) * cos t + sin (t + a) * sin t)"
    by (subst dx, subst dy) (simp only: algebra_simps)
  also have "cos (t + a) * cos t + sin (t + a) * sin t = cos ((t + a) - t)"
    by (simp only: cos_diff)
  finally show "dot (- (25 * cos (t + a)), - (25 * sin (t + a))) (- dx, - dy) = 25 * L * cos a"
    by simp
  have "cross (- dx, - dy) (- (25 * cos (t + a)), - (25 * sin (t + a)))
        = 25 * (sin (t + a) * dx - cos (t + a) * dy)"
    by (simp add: cross_def algebra_simps)
  also have "\<dots> = 25 * L * (sin (t + a) * cos t - cos (t + a) * sin t)"
    by (subst dx, subst dy) (simp only: algebra_simps)
  also have "sin (t + a) * cos t - cos (t + a) * sin t = sin ((t + a) - t)"
    by (simp only: sin_diff)
  finally show "cross (- dx, - dy) (- (25 * cos (t + a)), - (25 * sin (t + a))) = 25 * L * sin a"
    by simp
  show "vlen (- dx, - dy) = L"
    by (simp add: vlen_def L_def)
qed


text \<open>
  C8. For distinct points \<open>from\<close> and \<open>to\<close> the arrow strokes three segments: the
  shaft, which ends at \<open>to\<close>, and two segments that start at \<open>to\<close>. Each of these
  two has length 25 and makes the angle \<open>pi / 6\<close> with the reverse direction (the
  vector from \<open>to\<close> to \<open>from\<close>), and they lie on opposite sides of it. The witness is
  the arrow from (0, 0) to (100, 0), whose reverse direction is that of (-1, 0);
  \<open>arrow_example\<close> gives its end points.
\<close>

theorem arrowhead_geometry:
  assumes "from \<noteq> to"
  shows "\<exists>tail e1 e2.
           stroked_segments (drawArrow from to) = [(tail, to), (to, e1), (to, e2)] \<and>
           vlen (vec to e1) = 25 \<and> vlen (vec to e2) = 25 \<and>
           angle_between (vec to e1) (vec to from) = pi / 6 \<and>
           angle_between (vec to e2) (vec to from) = pi / 6 \<and>
           cross (vec to from) (vec to e1) < 0 \<and> 0 < cross (vec to from) (vec to e2)"
proof -
  define dx where "dx = px to - px from"
  define dy where "dy = py to - py from"
  define t where "t = atan2 dy dx"
  define L where "L = sqrt (dx * dx + dy * dy)"
  define e1 where "e1 = \<lparr>px = px to - 25 * cos (t - pi / 6), py = py to - 25 * sin (t - pi / 6)\<rparr>"
  define e2 where "e2 = \<lparr>px = px to - 25 * cos (t + pi / 6), py = py to - 25 * sin (t + pi / 6)\<rparr>"
  define tail where "tail = \<lparr>px = px from - dx / L * 50, py = py from - dy / L * 50\<rparr>"
  have nz: "dx \<noteq> 0 \<or> dy \<noteq> 0"
    using assms by (auto simp: Point_neq dx_def dy_def)
  have L: "0 < L"
    unfolding L_def by (rule length_pos[OF nz])
  have segs: "stroked_segments (drawArrow from to) = [(tail, to), (to, e1), (to, e2)]"
    using drawArrow_distinct[OF assms]
    by (simp add: tail_def e1_def e2_def t_def L_def dx_def dy_def)
  have v1: "vec to e1 = (- (25 * cos (t + (- (pi / 6)))), - (25 * sin (t + (- (pi / 6)))))"
    by (simp add: vec_def e1_def)
  have v2: "vec to e2 = (- (25 * cos (t + pi / 6)), - (25 * sin (t + pi / 6)))"
    by (simp add: vec_def e2_def)
  have vf: "vec to from = (- dx, - dy)"
    by (simp add: vec_def dx_def dy_def)
  have len1: "vlen (vec to e1) = 25"
    unfolding v1 by (simp add: vlen_polar)
  have len2: "vlen (vec to e2) = 25"
    unfolding v2 by (simp add: vlen_polar)
  have lenf: "vlen (vec to from) = L"
    unfolding vf L_def by (rule head_segment(3)[OF nz])
  have "dot (vec to e1) (vec to from) = 25 * L * cos (- (pi / 6))"
    unfolding v1 vf t_def L_def by (rule head_segment(1)[OF nz])
  then have "angle_between (vec to e1) (vec to from) = arccos (cos (pi / 6))"
    using L by (simp add: angle_between_def len1 lenf)
  then have a1: "angle_between (vec to e1) (vec to from) = pi / 6"
    by (simp add: arccos_cos)
  have "dot (vec to e2) (vec to from) = 25 * L * cos (pi / 6)"
    unfolding v2 vf t_def L_def by (rule head_segment(1)[OF nz])
  then have "angle_between (vec to e2) (vec to from) = arccos (cos (pi / 6))"
    using L by (simp add: angle_between_def len2 lenf)
  then have a2: "angle_between (vec to e2) (vec to from) = pi / 6"
    by (simp add: arccos_cos)
  have "cross (vec to from) (vec to e1) = 25 * L * sin (- (pi / 6))"
    unfolding v1 vf t_def L_def by (rule head_segment(2)[OF nz])
  then have c1: "cross (vec to from) (vec to e1) < 0"
    using L by (simp add: sin_30)
  have "cross (vec to from) (vec to e2) = 25 * L * sin (pi / 6)"
    unfolding v2 vf t_def L_def by (rule head_segment(2)[OF nz])
  then have c2: "0 < cross (vec to from) (vec to e2)"
    using L by (simp add: sin_30)
  from segs len1 len2 a1 a2 c1 c2 show ?thesis by blast
qed

theorem arrowhead_geometry_witness:
  "\<lparr>px = 0, py = 0\<rparr> \<noteq> \<lparr>px = 100, py = 0\<rparr> \<and>
   (\<exists>tail e1 e2.
      stroked_segments (drawArrow \<lparr>px = 0, py = 0\<rparr> \<lparr>px = 100, py = 0\<rparr>) =
        [(tail, \<lparr>px = 100, py = 0\<rparr>), (\<lparr>px = 100, py = 0\<rparr>, e1), (\<lparr>px = 100, py = 0\<rparr>, e2)] \<and>
      vlen (vec \<lparr>px = 100, py = 0\<rparr> e1) = 25 \<and> vlen (vec \<lparr>px = 100, py = 0\<rparr> e2) = 25 \<and>
      angle_between (vec \<lparr>px = 100, py = 0\<rparr> e1) (vec \<lparr>px = 100, py = 0\<rparr> \<lparr>px = 0, py = 0\<rparr>) = pi / 6 \<and>
      angle_between (vec \<lparr>px = 100, py = 0\<rparr> e2) (vec \<lparr>px = 100, py = 0\<rparr> \<lparr>px = 0, py = 0\<rparr>) = pi / 6 \<and>
      cross (vec \<lparr>px = 100, py = 0\<rparr> \<lparr>px = 0, py = 0\<rparr>) (vec \<lparr>px = 100, py = 0\<rparr> e1) < 0 \<and>
      0 < cross (vec \<lparr>px = 100, py = 0\<rparr> \<lparr>px = 0, py = 0\<rparr>) (vec \<lparr>px = 100, py = 0\<rparr> e2))"
proof -
  have h: "\<lparr>px = 0, py = 0\<rparr> \<noteq> \<lparr>px = 100, py = 0\<rparr>" by simp
  show ?thesis
    using h arrowhead_geometry[OF h] by (rule conjI)
qed

lemma arrow_example:
  "stroked_segments (drawArrow \<lparr>px = 0, py = 0\<rparr> \<lparr>px = 100, py = 0\<rparr>) =
     [(\<lparr>px = - 50, py = 0\<rparr>, \<lparr>px = 100, py = 0\<rparr>),
      (\<lparr>px = 100, py = 0\<rparr>, \<lparr>px = 100 - 25 * (sqrt 3 / 2), py = 25 / 2\<rparr>),
      (\<lparr>px = 100, py = 0\<rparr>, \<lparr>px = 100 - 25 * (sqrt 3 / 2), py = - (25 / 2)\<rparr>)]"
proof -
  have "sqrt (100 * 100) = \<bar>100::real\<bar>"
    by (rule real_sqrt_abs2)
  then have "sqrt 10000 = (100::real)"
    by simp
  then show ?thesis
    by (simp add: drawArrow_def stroked_segments_def Let_def atan2_def cos_30 sin_30 cos_diff sin_diff cos_add sin_add)
qed

subsection \<open>The coordinate mapper\<close>

lemma redraw_canvas_size:
  assumes "canvasRef m = Some canvas" and "context2d canvas = Some cs"
    and "imageRef m = Some img" and "fst (imageSize m) \<noteq> 0"
  shows "map_option canvas_width (canvasRef (redraw m)) = Some (naturalWidth img) \<and>
         map_option canvas_height (canvasRef (redraw m)) = Some (naturalHeight img)"
  using assms by (simp add: redraw_def Let_def)



subsection \<open>The point-capture state machine\<close>

lemma redraw_points [simp]: "points (redraw m) = points m"
  by (simp add: redraw_def Let_def split: option.splits)

lemma redraw_canvasRef_None [simp]: "canvasRef (redraw m) = None \<longleftrightarrow> canvasRef m = None"
  by (simp add: redraw_def Let_def split: option.splits)

lemma handleCanvasClick_canvasRef [simp]:
  "canvasRef (handleCanvasClick disabled rect event m) = canvasRef m"
  by (simp add: handleCanvasClick_def Let_def split: option.splits)













subsection \<open>The arrow of length zero\<close>





subsection \<open>Export\<close>

lemma export_only_with_two_points:
  "snd (handleGenerateClick toDataURL m) = Some mergedImage \<Longrightarrow> length (points m) = 2"
  by (auto simp: handleGenerateClick_def Let_def split: option.splits if_splits)

text \<open>
  C9. With a PointSet that does not have exactly two points, \<open>handleGenerateClick\<close>
  returns the component as it was and does not call \<open>onGenerate\<close>; the Generate button
  is disabled; and for the application with that MapMarker at its root, both the run of
  the handler and the click on the button leave the whole state (the state of \<open>App\<close>,
  the mounted tree and the log of requests) as it was. By
  \<open>export_only_with_two_points\<close> an artifact is produced only from two points.
\<close>

theorem export_needs_two_points:
  assumes "length (points m) \<noteq> 2"
  shows "handleGenerateClick toDataURL m = (m, None) \<and>
         generate_button_disabled disabled m \<and>
         (ui s = MapMarker_f m \<longrightarrow>
            run_handleGenerateClick ai toDataURL s = s \<and> click_Generate ai toDataURL s = s)"
proof -
  have h: "handleGenerateClick toDataURL m = (m, None)"
    using assms by (simp add: handleGenerateClick_def split: option.splits)
  have "run_handleGenerateClick ai toDataURL s = s" if "ui s = MapMarker_f m"
    using that h by (simp add: run_handleGenerateClick_def split: element.splits)
  moreover have "click_Generate ai toDataURL s = s" if "ui s = MapMarker_f m"
    using that assms by (simp add: click_Generate_def generate_button_disabled_def split: element.splits)
  ultimately show ?thesis
    using h assms by (simp add: generate_button_disabled_def)
qed

theorem export_needs_two_points_witness:
  "length (points (handleUndo sample_marker)) \<noteq> 2 \<and>
   handleGenerateClick sample_encoder (handleUndo sample_marker) =
     (handleUndo sample_marker, None) \<and>
   generate_button_disabled False (handleUndo sample_marker) \<and>
   run_handleGenerateClick empty_service sample_encoder
       (sample_system\<lparr>ui := MapMarker_f (handleUndo sample_marker)\<rparr>) =
     sample_system\<lparr>ui := MapMarker_f (handleUndo sample_marker)\<rparr> \<and>
   click_Generate empty_service sample_encoder
       (sample_system\<lparr>ui := MapMarker_f (handleUndo sample_marker)\<rparr>) =
     sample_system\<lparr>ui := MapMarker_f (handleUndo sample_marker)\<rparr>"
proof -
  have h: "length (points (handleUndo sample_marker)) \<noteq> 2"
    by (simp add: handleUndo_def sample_marker_def)
  show ?thesis
    using h export_needs_two_points
              [OF h, of sample_encoder False
                 "sample_system\<lparr>ui := MapMarker_f (handleUndo sample_marker)\<rparr>" empty_service]
    by simp
qed

subsection \<open>A first generation that fails\<close>














end
